theory Spec2Isabelle
  imports Complex_Main "HOL-Library.AList"
begin

section \<open>Chart builder: data ingestion, type inference, mapping validation, specification building\<close>

text \<open>
  The development embeds three JavaScript modules of the chart builder:
  the \<open>DataManager\<close> (CSV parsing, value parsing, column type inference),
  the \<open>DragDropManager\<close> (mapping validation) and the \<open>SpecBuilder\<close>
  (Vega-Lite and full chart specifications), together with the guard of
  \<open>ChartBuilder.updateChart\<close> that calls the builder.

  Conventions of the embedding.
  \<^item> JavaScript strings are character lists over ASCII; whitespace is the ASCII
    whitespace (space, tab, line feed, vertical tab, form feed, carriage return), and
    case conversion acts on the letters A-Z and a-z.
  \<^item> The four column type tags, which the code passes around as the strings
    \<open>'quantitative'\<close>, \<open>'nominal'\<close>, \<open>'ordinal'\<close> and \<open>'temporal'\<close>, are a datatype.
  \<^item> JavaScript objects used as dictionaries are association lists of their own
    properties in insertion order; a property that is absent reads as \<open>undefined\<close>.
    Assignment follows the language for the one name that an object does not take as an
    own property, \<open>__proto__\<close>. Reading a name that an object inherits from its
    prototype (\<open>constructor\<close>, \<open>toString\<close> and the like) is not treated.
\<close>

subsection \<open>Column types and field mappings\<close>

datatype ColumnType = Quantitative | Nominal | Ordinal | Temporal

text \<open>
  A mapped field, \<open>{ column, type }\<close>, as \<open>ChartBuilder.updateMapping\<close> stores it and
  as the drag data carries it.
\<close>

record field_mapping =
  fm_column :: string
  fm_type :: ColumnType

subsection \<open>DragDropManager.validateMapping\<close>

text \<open>The table \<open>validMappings\<close> of the function, keyed by encoding name.\<close>

definition validMappings :: "(string \<times> ColumnType list) list" where
  "validMappings =
     [(''x'', [Nominal, Ordinal, Quantitative, Temporal]),
      (''y'', [Quantitative]),
      (''color'', [Nominal, Ordinal, Quantitative]),
      (''size'', [Quantitative])]"

text \<open>
  \<open>validateMapping(encoding, dragData)\<close>: the first test rejects an unknown encoding and a
  type that is not listed; the special case for \<open>y\<close> comes after it.
\<close>

definition validateMapping :: "string \<Rightarrow> field_mapping \<Rightarrow> bool" where
  "validateMapping encoding dragData =
     (let type = fm_type dragData in
      case map_of validMappings encoding of
        None \<Rightarrow> False
      | Some accepted \<Rightarrow>
          if type \<notin> set accepted then False
          else if encoding = ''y'' \<and> type \<in> set [Nominal, Ordinal] then True
          else True)"

subsection \<open>Strings\<close>

definition dquote :: char where "dquote = CHR 0x22"
definition squote :: char where "squote = CHR 0x27"
definition newline :: char where "newline = CHR 0x0A"

text \<open>The white space that \<open>String.prototype.trim\<close> and numeric coercion strip.\<close>

definition isWhiteSpace :: "char \<Rightarrow> bool" where
  "isWhiteSpace c = (c \<in> set [CHR '' '', CHR 0x09, CHR 0x0A, CHR 0x0B, CHR 0x0C, CHR 0x0D])"

definition trimStart :: "string \<Rightarrow> string" where
  "trimStart s = dropWhile isWhiteSpace s"

definition trim :: "string \<Rightarrow> string" where
  "trim s = rev (dropWhile isWhiteSpace (rev (dropWhile isWhiteSpace s)))"

definition startsWith :: "char \<Rightarrow> string \<Rightarrow> bool" where
  "startsWith c s = (case s of [] \<Rightarrow> False | x # _ \<Rightarrow> x = c)"

definition endsWith :: "char \<Rightarrow> string \<Rightarrow> bool" where
  "endsWith c s = (case rev s of [] \<Rightarrow> False | x # _ \<Rightarrow> x = c)"

text \<open>\<open>value.slice(1, -1)\<close>: the string without its first and last character.\<close>

definition slice_1_m1 :: "string \<Rightarrow> string" where
  "slice_1_m1 s = butlast (tl s)"

definition isUpper :: "char \<Rightarrow> bool" where
  "isUpper c = (65 \<le> (of_char c :: nat) \<and> (of_char c :: nat) \<le> 90)"

definition isLower :: "char \<Rightarrow> bool" where
  "isLower c = (97 \<le> (of_char c :: nat) \<and> (of_char c :: nat) \<le> 122)"

definition toLowerChar :: "char \<Rightarrow> char" where
  "toLowerChar c = (if isUpper c then char_of ((of_char c :: nat) + 32) else c)"

definition toUpperChar :: "char \<Rightarrow> char" where
  "toUpperChar c = (if isLower c then char_of ((of_char c :: nat) - 32) else c)"

definition toLowerCase :: "string \<Rightarrow> string" where
  "toLowerCase s = map toLowerChar s"

text \<open>\<open>content.split('\n')\<close>, for any separator character: the empty string gives one empty piece.\<close>

fun split :: "char \<Rightarrow> string \<Rightarrow> string list" where
  "split sep [] = [[]]"
| "split sep (c # cs) =
     (if c = sep then [] # split sep cs
      else (case split sep cs of [] \<Rightarrow> [[c]] | piece # pieces \<Rightarrow> (c # piece) # pieces))"

subsection \<open>Numbers and numeric coercion of strings\<close>

text \<open>
  A JavaScript number is a finite value, one of the two infinities, or NaN. A finite value
  is held as the exact rational that the literal denotes; rounding to binary64 and the
  sign of zero are not represented.
\<close>

datatype jsnum = Finite rat | PosInfinity | NegInfinity | NaN

definition negate :: "jsnum \<Rightarrow> jsnum" where
  "negate n = (case n of Finite q \<Rightarrow> Finite (- q) | PosInfinity \<Rightarrow> NegInfinity
                | NegInfinity \<Rightarrow> PosInfinity | NaN \<Rightarrow> NaN)"

definition isDigit :: "char \<Rightarrow> bool" where
  "isDigit c = (48 \<le> (of_char c :: nat) \<and> (of_char c :: nat) \<le> 57)"

text \<open>The value of a digit in a base up to 16, if the character is such a digit.\<close>

definition digitOf :: "nat \<Rightarrow> char \<Rightarrow> nat option" where
  "digitOf base c =
     (let n = (of_char c :: nat);
          d = (if 48 \<le> n \<and> n \<le> 57 then Some (n - 48)
               else if 97 \<le> n \<and> n \<le> 102 then Some (n - 87)
               else if 65 \<le> n \<and> n \<le> 70 then Some (n - 55)
               else None)
      in case d of None \<Rightarrow> None | Some v \<Rightarrow> if v < base then Some v else None)"

definition digitsValue :: "nat \<Rightarrow> string \<Rightarrow> nat" where
  "digitsValue base ds = foldl (\<lambda>acc c. base * acc + (case digitOf base c of Some v \<Rightarrow> v | None \<Rightarrow> 0)) 0 ds"

definition pow10 :: "int \<Rightarrow> rat" where
  "pow10 e = (if 0 \<le> e then 10 ^ nat e else 1 / 10 ^ nat (- e))"

text \<open>
  The optional \<open>ExponentPart\<close> at the head of a string: its value and the rest of the
  string. An exponent indicator that no digit follows is not part of the number.
\<close>

definition scanExponent :: "string \<Rightarrow> int \<times> string" where
  "scanExponent s =
     (case s of
        [] \<Rightarrow> (0, s)
      | e # r \<Rightarrow>
          if e = CHR ''e'' \<or> e = CHR ''E'' then
            (let (sgn, r') =
                   (case r of
                      [] \<Rightarrow> (1, r)
                    | c # r'' \<Rightarrow> if c = CHR ''+'' then (1, r'')
                                 else if c = CHR ''-'' then (- 1, r'') else (1, r));
                 ds = takeWhile isDigit r'
             in if ds = [] then (0, s)
                else (sgn * int (digitsValue 10 ds), dropWhile isDigit r'))
          else (0, s))"

text \<open>
  The longest prefix of a string that is a \<open>StrUnsignedDecimalLiteral\<close> (\<open>Infinity\<close>,
  \<open>digits . digits\<^sub>o\<^sub>p\<^sub>t exponent\<^sub>o\<^sub>p\<^sub>t\<close>, \<open>. digits exponent\<^sub>o\<^sub>p\<^sub>t\<close> or
  \<open>digits exponent\<^sub>o\<^sub>p\<^sub>t\<close>), with its value and the rest of the string.
\<close>

definition scanUnsigned :: "string \<Rightarrow> (jsnum \<times> string) option" where
  "scanUnsigned s =
     (if take 8 s = ''Infinity'' then Some (PosInfinity, drop 8 s)
      else
        (let ip = takeWhile isDigit s;
             r1 = dropWhile isDigit s;
             (fp, r2) =
               (case r1 of
                  [] \<Rightarrow> ([], r1)
                | c # r \<Rightarrow>
                    if c = CHR ''.'' \<and> (ip \<noteq> [] \<or> takeWhile isDigit r \<noteq> [])
                    then (takeWhile isDigit r, dropWhile isDigit r)
                    else ([], r1))
         in if ip = [] \<and> fp = [] then None
            else
              (let (e, r3) = scanExponent r2
               in Some (Finite (rat_of_nat (digitsValue 10 (ip @ fp)) * pow10 (e - int (length fp))), r3))))"

text \<open>The longest prefix that is a \<open>StrDecimalLiteral\<close>: an optional sign and the above.\<close>

definition scanDecimal :: "string \<Rightarrow> (jsnum \<times> string) option" where
  "scanDecimal s =
     (case s of
        [] \<Rightarrow> None
      | c # r \<Rightarrow>
          if c = CHR ''+'' then scanUnsigned r
          else if c = CHR ''-'' then map_option (\<lambda>(v, rest). (negate v, rest)) (scanUnsigned r)
          else scanUnsigned s)"

text \<open>
  A \<open>NonDecimalIntegerLiteral\<close>: \<open>0x\<close>, \<open>0o\<close> or \<open>0b\<close> (in either case) and at least
  one digit of that base, nothing else.
\<close>

definition nonDecimalLiteral :: "string \<Rightarrow> nat option" where
  "nonDecimalLiteral s =
     (case s of
        z # p # ds \<Rightarrow>
          (let base = (if p = CHR ''x'' \<or> p = CHR ''X'' then 16
                       else if p = CHR ''o'' \<or> p = CHR ''O'' then 8
                       else if p = CHR ''b'' \<or> p = CHR ''B'' then 2 else (0::nat))
           in if z = CHR ''0'' \<and> base \<noteq> 0 \<and> ds \<noteq> [] \<and> list_all (\<lambda>c. digitOf base c \<noteq> None) ds
              then Some (digitsValue base ds) else None)
      | _ \<Rightarrow> None)"

text \<open>
  \<open>Number(s)\<close> for a string: white space is trimmed, the empty string is \<open>0\<close>, and the
  whole of what is left must be a numeric literal, otherwise the result is NaN.
\<close>

definition toNumber :: "string \<Rightarrow> jsnum" where
  "toNumber s =
     (let t = trim s
      in if t = [] then Finite 0
         else
           (case nonDecimalLiteral t of
              Some n \<Rightarrow> Finite (rat_of_nat n)
            | None \<Rightarrow>
                (case scanDecimal t of
                   Some (v, rest) \<Rightarrow> if rest = [] then v else NaN
                 | None \<Rightarrow> NaN)))"

text \<open>The global \<open>isNaN\<close> applied to a string.\<close>

definition isNaN :: "string \<Rightarrow> bool" where
  "isNaN s = (toNumber s = NaN)"

text \<open>
  \<open>parseFloat\<close>: leading white space is skipped and the longest prefix that is a decimal
  literal is converted; without such a prefix the result is NaN.
\<close>

definition parseFloat :: "string \<Rightarrow> jsnum" where
  "parseFloat s = (case scanDecimal (trimStart s) of None \<Rightarrow> NaN | Some (v, rest) \<Rightarrow> v)"

subsection \<open>Cell values and datasets\<close>

text \<open>
  A cell holds a number, a string, a \<open>Date\<close> object (kept with the string it was
  constructed from; the time value is the host's), \<open>null\<close>, \<open>undefined\<close>, or, in data
  that comes from JSON, a boolean or a nested object or array.
\<close>

datatype cell = CNum jsnum | CStr string | CDate string | CBool bool | CObject | CNull | CUndefined

type_synonym row = "(string \<times> cell) list"
type_synonym dataset = "row list"

text \<open>
  \<open>row[header] = v\<close> on an object that started as \<open>{}\<close>. The object is held as its own
  properties together with a flag that says whether it still inherits from
  \<open>Object.prototype\<close>. While it does, and has no own property of that name, the name
  \<open>__proto__\<close> is the inherited accessor: assigning \<open>null\<close> removes the prototype,
  assigning an object (a \<open>Date\<close>) replaces it, assigning a number or a string does
  nothing, and in no case does the object get an own property. Every other assignment
  sets an own property.
\<close>

definition objSet :: "bool \<times> row \<Rightarrow> string \<Rightarrow> cell \<Rightarrow> bool \<times> row" where
  "objSet obj k v =
     (case obj of
        (inherits, props) \<Rightarrow>
          if k = ''__proto__'' \<and> inherits \<and> map_of props k = None then
            (case v of CNull \<Rightarrow> (False, props) | _ \<Rightarrow> (True, props))
          else (inherits, AList.update k v props))"

text \<open>\<open>row[column]\<close>, for an own property.\<close>

definition objGet :: "row \<Rightarrow> string \<Rightarrow> cell" where
  "objGet r k = (case map_of r k of None \<Rightarrow> CUndefined | Some v \<Rightarrow> v)"


subsection \<open>DataManager.isDate and DataManager.parseValue\<close>

text \<open>The three anchored patterns are sequences of digit classes and literal characters.\<close>

datatype pat = D | L char

fun matches :: "pat list \<Rightarrow> string \<Rightarrow> bool" where
  "matches [] [] = True"
| "matches (D # ps) (c # cs) = (isDigit c \<and> matches ps cs)"
| "matches (L l # ps) (c # cs) = (c = l \<and> matches ps cs)"
| "matches _ _ = False"

definition datePatterns :: "pat list list" where
  "datePatterns =
     [[D, D, D, D, L (CHR ''-''), D, D, L (CHR ''-''), D, D],
      [D, D, L (CHR ''/''), D, D, L (CHR ''/''), D, D, D, D],
      [D, D, L (CHR ''-''), D, D, L (CHR ''-''), D, D, D, D]]"

definition isDate :: "string \<Rightarrow> bool" where
  "isDate v = list_ex (\<lambda>pattern. matches pattern v) datePatterns"

definition stripQuotes :: "string \<Rightarrow> string" where
  "stripQuotes v =
     (if (startsWith dquote v \<and> endsWith dquote v) \<or> (startsWith squote v \<and> endsWith squote v)
      then slice_1_m1 v else v)"

definition parseValue :: "string \<Rightarrow> cell" where
  "parseValue raw =
     (if raw = [] then CNull
      else
        (let v = stripQuotes (trim raw)
         in if \<not> isNaN v \<and> v \<noteq> [] then CNum (parseFloat v)
            else if isDate v then CDate v
            else CStr v))"

subsection \<open>DataManager.parseCSVLine, parseCSV and parseTSV\<close>

text \<open>
  The \<open>while\<close> loop of \<open>parseCSVLine\<close> over the characters that are left, with its three
  variables \<open>values\<close>, \<open>current\<close> and \<open>inQuotes\<close>. A doubled quote inside quotes is one
  quote character and advances by two.
\<close>

fun parseCSVLine_loop :: "char \<Rightarrow> string \<Rightarrow> string list \<Rightarrow> string \<Rightarrow> bool \<Rightarrow> string list" where
  "parseCSVLine_loop delimiter [] values current inQuotes = values @ [trim current]"
| "parseCSVLine_loop delimiter (c # rest) values current inQuotes =
     (if c = dquote then
        (case rest of
           [] \<Rightarrow> parseCSVLine_loop delimiter rest values current (\<not> inQuotes)
         | c' # rest' \<Rightarrow>
             if inQuotes \<and> c' = dquote
             then parseCSVLine_loop delimiter rest' values (current @ [dquote]) inQuotes
             else parseCSVLine_loop delimiter rest values current (\<not> inQuotes))
      else if c = delimiter \<and> \<not> inQuotes
        then parseCSVLine_loop delimiter rest (values @ [trim current]) [] inQuotes
      else parseCSVLine_loop delimiter rest values (current @ [c]) inQuotes)"

definition parseCSVLine :: "string \<Rightarrow> char \<Rightarrow> string list" where
  "parseCSVLine line delimiter = parseCSVLine_loop delimiter line [] [] False"

text \<open>What the code raises: an \<open>Error\<close> with its message, or the engine's \<open>TypeError\<close>.\<close>

datatype error = Error string | TypeError

text \<open>
  The row object of one line: \<open>const row = {}; headers.forEach((header, index) =>
  row[header] = parseValue(values[index]))\<close>, called only when both lists have the same
  length. The result is the own properties of the row.
\<close>

definition makeRow :: "string list \<Rightarrow> string list \<Rightarrow> row" where
  "makeRow headers values =
     snd (foldl (\<lambda>obj (header, v). objSet obj header (parseValue v)) (True, []) (zip headers values))"

text \<open>The \<open>for\<close> loop over the data lines; a line of the wrong length is skipped.\<close>

fun parseCSV_rows :: "string list \<Rightarrow> char \<Rightarrow> string list \<Rightarrow> dataset \<Rightarrow> dataset" where
  "parseCSV_rows headers delimiter [] data = data"
| "parseCSV_rows headers delimiter (line # lines) data =
     (let values = parseCSVLine line delimiter
      in if length values \<noteq> length headers then parseCSV_rows headers delimiter lines data
         else parseCSV_rows headers delimiter lines (data @ [makeRow headers values]))"

definition parseCSV :: "string \<Rightarrow> char \<Rightarrow> error + dataset" where
  "parseCSV content delimiter =
     (case split newline (trim content) of
        header # line # lines \<Rightarrow>
          Inr (parseCSV_rows (parseCSVLine header delimiter) delimiter (line # lines) [])
      | _ \<Rightarrow> Inl (Error ''CSV file must have at least a header and one data row''))"


subsection \<open>DataManager.inferColumnType\<close>

definition isNumber :: "cell \<Rightarrow> bool" where
  "isNumber v = (case v of CNum _ \<Rightarrow> True | _ \<Rightarrow> False)"

definition isDateObject :: "cell \<Rightarrow> bool" where
  "isDateObject v = (case v of CDate _ \<Rightarrow> True | _ \<Rightarrow> False)"

definition isString :: "cell \<Rightarrow> bool" where
  "isString v = (case v of CStr _ \<Rightarrow> True | _ \<Rightarrow> False)"

definition stringOf :: "cell \<Rightarrow> string" where
  "stringOf v = (case v of CStr s \<Rightarrow> s | _ \<Rightarrow> [])"

text \<open>\<open>data.map(row => row[column]).filter(val => val != null)\<close>.\<close>

definition columnValues :: "dataset \<Rightarrow> string \<Rightarrow> cell list" where
  "columnValues data column =
     filter (\<lambda>val. val \<noteq> CNull \<and> val \<noteq> CUndefined) (map (\<lambda>r. objGet r column) data)"

text \<open>\<open>[...new Set(xs)]\<close>: the distinct elements in the order of their first occurrence.\<close>

definition unique :: "'a list \<Rightarrow> 'a list" where
  "unique xs = foldl (\<lambda>seen x. if x \<in> set seen then seen else seen @ [x]) [] xs"

definition ordinalPatterns :: "string list list" where
  "ordinalPatterns =
     [[''low'', ''medium'', ''high''],
      [''small'', ''medium'', ''large''],
      [''poor'', ''fair'', ''good'', ''excellent''],
      [''never'', ''rarely'', ''sometimes'', ''often'', ''always'']]"

text \<open>
  The loop over \<open>ordinalPatterns\<close>: it returns \<open>'ordinal'\<close> at the first pattern of which
  every word is among the lower-cased distinct values.
\<close>

definition matchesOrdinalPattern :: "string list \<Rightarrow> bool" where
  "matchesOrdinalPattern lowerValues =
     list_ex (\<lambda>pattern. list_all (\<lambda>p. p \<in> set lowerValues) pattern) ordinalPatterns"

text \<open>
  The comparison \<open>uniqueValues.length < values.length * 0.5\<close> is written over the naturals
  as \<open>2 * length uniqueValues < length values\<close>.
\<close>

definition inferColumnType :: "dataset \<Rightarrow> string \<Rightarrow> ColumnType" where
  "inferColumnType data column =
     (if data = [] then Nominal
      else
        (let values = columnValues data column
         in if values = [] then Nominal
            else if length (filter isNumber values) = length values then Quantitative
            else if length (filter isDateObject values) = length values then Temporal
            else
              (let stringValues = filter isString values
               in if length stringValues = length values then
                    (let uniqueValues = unique (map stringOf stringValues)
                     in if 2 * length uniqueValues < length values \<and> length uniqueValues < 20 then
                          (let lowerValues = map toLowerCase uniqueValues
                           in if matchesOrdinalPattern lowerValues then Ordinal
                              else if list_all (\<lambda>v. length v \<le> 3) uniqueValues then Nominal
                              else Ordinal)
                        else Nominal)
                  else Nominal)))"

subsection \<open>SpecBuilder: marks\<close>

text \<open>
  The mappings object: encoding name to \<open>{ column, type }\<close> or \<open>null\<close>. A test such as
  \<open>if (mappings.x)\<close> succeeds exactly when the property is there and is not \<open>null\<close>.
\<close>

type_synonym mappings = "(string \<times> field_mapping option) list"

definition mapped :: "mappings \<Rightarrow> string \<Rightarrow> field_mapping option" where
  "mapped ms encoding = (case map_of ms encoding of Some (Some m) \<Rightarrow> Some m | _ \<Rightarrow> None)"

text \<open>A mark descriptor; a property that the object does not have is \<open>None\<close>.\<close>

record mark =
  mark_type :: string
  mark_tooltip :: bool
  mark_size :: "nat option"
  mark_point :: "bool option"
  mark_stroke :: "string option"
  mark_strokeWidth :: "rat option"

definition plainMark :: "string \<Rightarrow> mark" where
  "plainMark t = \<lparr>mark_type = t, mark_tooltip = True, mark_size = None, mark_point = None,
                   mark_stroke = None, mark_strokeWidth = None\<rparr>"

definition markConfigs :: "(string \<times> mark) list" where
  "markConfigs =
     [(''bar'', plainMark ''bar''),
      (''scatter'', (plainMark ''circle'')\<lparr>mark_size := Some 60\<rparr>),
      (''line'', (plainMark ''line'')\<lparr>mark_point := Some True\<rparr>),
      (''area'', plainMark ''area''),
      (''histogram'', plainMark ''bar''),
      (''boxplot'', plainMark ''boxplot'')]"

definition buildMark :: "string \<Rightarrow> mappings \<Rightarrow> mark" where
  "buildMark chartType ms =
     (let baseConfig = (case map_of markConfigs chartType of
                          Some m \<Rightarrow> m
                        | None \<Rightarrow> plainMark chartType)
      in if mapped ms ''color'' \<noteq> None
         then baseConfig\<lparr>mark_stroke := Some ''white'', mark_strokeWidth := Some (1 / 2)\<rparr>
         else baseConfig)"

subsection \<open>SpecBuilder: encodings\<close>

text \<open>
  \<open>formatTitle\<close>: underscores become spaces, a space goes before every capital letter,
  the first character is put in upper case, and the result is trimmed.
\<close>

definition formatTitle :: "string \<Rightarrow> string" where
  "formatTitle columnName =
     (let s1 = map (\<lambda>c. if c = CHR ''_'' then CHR '' '' else c) columnName;
          s2 = concat (map (\<lambda>c. if isUpper c then [CHR '' '', c] else [c]) s1);
          s3 = (case s2 of [] \<Rightarrow> [] | c # cs \<Rightarrow> toUpperChar c # cs)
      in trim s3)"

record axis_config =
  axis_grid :: bool
  axis_tickCount :: nat
  axis_labelAngle :: int
  axis_format :: "string option"

definition buildAxisConfig :: "string \<Rightarrow> ColumnType \<Rightarrow> axis_config" where
  "buildAxisConfig axis type =
     (let config = \<lparr>axis_grid = True, axis_tickCount = (if axis = ''x'' then 10 else 5),
                     axis_labelAngle = 0, axis_format = None\<rparr>
      in case type of
           Temporal \<Rightarrow> config\<lparr>axis_format := Some ''%b %Y'', axis_labelAngle := - 45\<rparr>
         | Quantitative \<Rightarrow> config\<lparr>axis_format := Some ''.1f''\<rparr>
         | Nominal \<Rightarrow> if axis = ''x'' then config\<lparr>axis_labelAngle := - 45\<rparr> else config
         | Ordinal \<Rightarrow> if axis = ''x'' then config\<lparr>axis_labelAngle := - 45\<rparr> else config)"

record color_scale =
  cs_scheme :: string
  cs_reverse :: "bool option"

definition buildColorScale :: "ColumnType \<Rightarrow> color_scale" where
  "buildColorScale type =
     (case type of
        Nominal \<Rightarrow> \<lparr>cs_scheme = ''category10'', cs_reverse = None\<rparr>
      | Ordinal \<Rightarrow> \<lparr>cs_scheme = ''blues'', cs_reverse = Some False\<rparr>
      | Quantitative \<Rightarrow> \<lparr>cs_scheme = ''viridis'', cs_reverse = Some False\<rparr>
      | _ \<Rightarrow> \<lparr>cs_scheme = ''category10'', cs_reverse = None\<rparr>)"

record size_scale =
  ss_range :: "nat list"
  ss_nice :: "bool option"

definition buildSizeScale :: "ColumnType \<Rightarrow> size_scale" where
  "buildSizeScale type =
     (case type of
        Quantitative \<Rightarrow> \<lparr>ss_range = [50, 400], ss_nice = Some True\<rparr>
      | Ordinal \<Rightarrow> \<lparr>ss_range = [50, 200, 350], ss_nice = Some False\<rparr>
      | _ \<Rightarrow> \<lparr>ss_range = [50, 200], ss_nice = None\<rparr>)"

record position_channel =
  pos_field :: string
  pos_type :: ColumnType
  pos_title :: string
  pos_axis :: axis_config

record color_channel =
  col_field :: string
  col_type :: ColumnType
  col_title :: string
  col_scale :: color_scale
  col_legend_title :: string

record size_channel =
  sz_field :: string
  sz_type :: ColumnType
  sz_title :: string
  sz_scale :: size_scale
  sz_legend_title :: string

text \<open>The encoding object; a channel that was not added is \<open>None\<close>.\<close>

record encoding =
  enc_x :: "position_channel option"
  enc_y :: "position_channel option"
  enc_color :: "color_channel option"
  enc_size :: "size_channel option"

definition positionChannel :: "string \<Rightarrow> field_mapping \<Rightarrow> position_channel" where
  "positionChannel axis m =
     \<lparr>pos_field = fm_column m, pos_type = fm_type m, pos_title = formatTitle (fm_column m),
      pos_axis = buildAxisConfig axis (fm_type m)\<rparr>"

definition colorChannel :: "field_mapping \<Rightarrow> color_channel" where
  "colorChannel m =
     \<lparr>col_field = fm_column m, col_type = fm_type m, col_title = formatTitle (fm_column m),
      col_scale = buildColorScale (fm_type m), col_legend_title = formatTitle (fm_column m)\<rparr>"

definition sizeChannel :: "field_mapping \<Rightarrow> size_channel" where
  "sizeChannel m =
     \<lparr>sz_field = fm_column m, sz_type = fm_type m, sz_title = formatTitle (fm_column m),
      sz_scale = buildSizeScale (fm_type m), sz_legend_title = formatTitle (fm_column m)\<rparr>"

definition buildEncoding :: "mappings \<Rightarrow> encoding" where
  "buildEncoding ms =
     \<lparr>enc_x = map_option (positionChannel ''x'') (mapped ms ''x''),
      enc_y = map_option (positionChannel ''y'') (mapped ms ''y''),
      enc_color = map_option colorChannel (mapped ms ''color''),
      enc_size = map_option sizeChannel (mapped ms ''size'')\<rparr>"

subsection \<open>SpecBuilder.buildSpec\<close>

text \<open>
  The display configuration. The title is a string or is missing; width and height are
  numbers (the controller stores the result of \<open>parseInt\<close>, which may be NaN) or are
  missing. In \<open>config.width || 600\<close> the numbers \<open>0\<close> and NaN count as missing, and in
  \<open>config.title || ...\<close> so does the empty string.
\<close>

record chart_config =
  cfg_title :: "string option"
  cfg_width :: "jsnum option"
  cfg_height :: "jsnum option"

text \<open>\<open>v || d\<close> for a number that may be missing.\<close>

definition orNumber :: "jsnum option \<Rightarrow> rat \<Rightarrow> jsnum" where
  "orNumber v d = (case v of None \<Rightarrow> Finite d
                   | Some n \<Rightarrow> if n = Finite 0 \<or> n = NaN then Finite d else n)"

text \<open>\<open>config.title\<close> where it counts as true: a string that is not empty.\<close>

definition truthyTitle :: "chart_config \<Rightarrow> string option" where
  "truthyTitle config =
     (case cfg_title config of None \<Rightarrow> None | Some t \<Rightarrow> if t = [] then None else Some t)"

text \<open>\<open>config.title || d\<close>.\<close>

definition titleOr :: "chart_config \<Rightarrow> string \<Rightarrow> string" where
  "titleOr config d = (case truthyTitle config of None \<Rightarrow> d | Some t \<Rightarrow> t)"

record title_block =
  tb_text :: string
  tb_anchor :: string
  tb_fontSize :: nat
  tb_fontWeight :: string

text \<open>The constant object of \<open>buildConfig\<close>, with its nested objects flattened.\<close>

record view_config =
  vc_view_continuousWidth :: nat
  vc_view_continuousHeight :: nat
  vc_axis_labelFontSize :: nat
  vc_axis_titleFontSize :: nat
  vc_axis_titleFontWeight :: string
  vc_legend_labelFontSize :: nat
  vc_legend_titleFontSize :: nat
  vc_legend_titleFontWeight :: string
  vc_title_fontSize :: nat
  vc_title_fontWeight :: string
  vc_title_anchor :: string

definition buildConfig :: "string \<Rightarrow> view_config" where
  "buildConfig chartType =
     \<lparr>vc_view_continuousWidth = 400, vc_view_continuousHeight = 300,
      vc_axis_labelFontSize = 11, vc_axis_titleFontSize = 12, vc_axis_titleFontWeight = ''bold'',
      vc_legend_labelFontSize = 11, vc_legend_titleFontSize = 12, vc_legend_titleFontWeight = ''bold'',
      vc_title_fontSize = 16, vc_title_fontWeight = ''bold'', vc_title_anchor = ''start''\<rparr>"

record vega_spec =
  vs_schema :: string
  vs_description :: string
  vs_data_values :: dataset
  vs_mark :: mark
  vs_encoding :: encoding
  vs_width :: jsnum
  vs_height :: jsnum
  vs_title :: "title_block option"
  vs_config :: view_config

definition vegaLiteVersion :: string where
  "vegaLiteVersion = ''v5''"

definition buildSpec :: "dataset \<Rightarrow> string \<Rightarrow> mappings \<Rightarrow> chart_config \<Rightarrow> vega_spec" where
  "buildSpec data chartType ms config =
     \<lparr>vs_schema = ''https://vega.github.io/schema/vega-lite/'' @ vegaLiteVersion @ ''.json'',
      vs_description = titleOr config (chartType @ '' chart''),
      vs_data_values = data,
      vs_mark = buildMark chartType ms,
      vs_encoding = buildEncoding ms,
      vs_width = orNumber (cfg_width config) 600,
      vs_height = orNumber (cfg_height config) 400,
      vs_title =
        (case truthyTitle config of
           Some t \<Rightarrow> Some \<lparr>tb_text = t, tb_anchor = ''start'', tb_fontSize = 16,
                              tb_fontWeight = ''bold''\<rparr>
         | None \<Rightarrow> None),
      vs_config = buildConfig chartType\<rparr>"

text \<open>
  \<open>buildSpec\<close> on a mappings object as a caller may pass it. \<open>ChartBuilder\<close> stores
  \<open>{ column, type }\<close> entries; \<open>ChartBuilderV2\<close> stores \<open>{ field, type }\<close>, so that
  \<open>column\<close> reads as \<open>undefined\<close>. The function reads the channels \<open>x\<close>, \<open>y\<close>,
  \<open>color\<close> and \<open>size\<close> in this order, and for a channel that is there it calls
  \<open>formatTitle(column)\<close>, whose \<open>columnName.replace\<close> raises a \<open>TypeError\<close> when the
  column is \<open>undefined\<close>.
\<close>

record mapping_entry =
  me_column :: "string option"
  me_type :: ColumnType

type_synonym mappings_object = "(string \<times> mapping_entry option) list"

definition entryOf :: "mappings_object \<Rightarrow> string \<Rightarrow> mapping_entry option" where
  "entryOf mo encoding = (case map_of mo encoding of Some (Some e) \<Rightarrow> Some e | _ \<Rightarrow> None)"

definition readChannel :: "mappings_object \<Rightarrow> string \<Rightarrow> error + field_mapping option" where
  "readChannel mo encoding =
     (case entryOf mo encoding of
        None \<Rightarrow> Inr None
      | Some e \<Rightarrow>
          (case me_column e of
             None \<Rightarrow> Inl TypeError
           | Some c \<Rightarrow> Inr (Some \<lparr>fm_column = c, fm_type = me_type e\<rparr>)))"

definition buildSpecOn :: "dataset \<Rightarrow> string \<Rightarrow> mappings_object \<Rightarrow> chart_config \<Rightarrow> error + vega_spec" where
  "buildSpecOn data chartType mo config =
     (case readChannel mo ''x'' of
        Inl e \<Rightarrow> Inl e
      | Inr x \<Rightarrow>
          (case readChannel mo ''y'' of
             Inl e \<Rightarrow> Inl e
           | Inr y \<Rightarrow>
               (case readChannel mo ''color'' of
                  Inl e \<Rightarrow> Inl e
                | Inr c \<Rightarrow>
                    (case readChannel mo ''size'' of
                       Inl e \<Rightarrow> Inl e
                     | Inr s \<Rightarrow>
                         Inr (buildSpec data chartType
                                [(''x'', x), (''y'', y), (''color'', c), (''size'', s)] config)))))"

text \<open>Every channel among the four that is there has a column name.\<close>

definition columnsPresent :: "mappings_object \<Rightarrow> bool" where
  "columnsPresent mo =
     list_all (\<lambda>encoding. case entryOf mo encoding of None \<Rightarrow> True | Some e \<Rightarrow> me_column e \<noteq> None)
       [''x'', ''y'', ''color'', ''size'']"

subsection \<open>SpecBuilder.buildFullSpec\<close>

text \<open>The decimal numeral of a natural number, as a template literal prints it.\<close>

fun showNat :: "nat \<Rightarrow> string" where
  "showNat n = (if n < 10 then [char_of (48 + n)] else showNat (n div 10) @ [char_of (48 + n mod 10)])"

record encoding_metadata =
  em_field :: string
  em_type :: ColumnType
  em_title :: string

text \<open>\<open>buildEncodingMetadata\<close>: one entry for every mapping that is not \<open>null\<close>, in order.\<close>

definition buildEncodingMetadata :: "mappings \<Rightarrow> (string \<times> encoding_metadata) list" where
  "buildEncodingMetadata ms =
     concat (map (\<lambda>(encoding, mapping).
                    case mapping of
                      None \<Rightarrow> []
                    | Some m \<Rightarrow> [(encoding, \<lparr>em_field = fm_column m, em_type = fm_type m,
                                               em_title = formatTitle (fm_column m)\<rparr>)]) ms)"

record full_spec =
  fs_id :: string
  fs_version :: string
  fs_metadata_created :: string
  fs_metadata_title :: string
  fs_metadata_description :: string
  fs_data_source :: string
  fs_data_format :: string
  fs_data_values :: dataset
  fs_data_name :: string
  fs_chart_type :: string
  fs_chart_encoding :: "(string \<times> encoding_metadata) list"
  fs_chart_config_width :: jsnum
  fs_chart_config_height :: jsnum
  fs_chart_config_padding :: "nat \<times> nat \<times> nat \<times> nat"
  fs_chart_config_background :: string
  fs_chart_config_title_text :: string
  fs_chart_config_title_fontSize :: nat
  fs_chart_config_title_anchor :: string
  fs_interactions_tooltip :: bool
  fs_interactions_zoom :: bool
  fs_interactions_brush :: bool
  fs_interactions_click :: string
  fs_vegaLiteSpec :: vega_spec

text \<open>
  \<open>buildFullSpec\<close>. The two values that the function takes from its environment, the
  generated chart id (clock and random number) and the creation time, are parameters.
  The padding is (top, right, bottom, left).
\<close>

definition buildFullSpec ::
    "string \<Rightarrow> string \<Rightarrow> dataset \<Rightarrow> string \<Rightarrow> mappings \<Rightarrow> chart_config \<Rightarrow> full_spec" where
  "buildFullSpec chartId now data chartType ms config =
     (let vegaSpec = buildSpec data chartType ms config
      in \<lparr>fs_id = chartId,
          fs_version = ''1.0'',
          fs_metadata_created = now,
          fs_metadata_title = titleOr config ''Untitled Chart'',
          fs_metadata_description =
            chartType @ '' chart with '' @
            showNat (length (filter (\<lambda>(k, m). m \<noteq> None) ms)) @ '' encodings'',
          fs_data_source = ''inline'',
          fs_data_format = ''json'',
          fs_data_values = data,
          fs_data_name = ''chart_data'',
          fs_chart_type = chartType,
          fs_chart_encoding = buildEncodingMetadata ms,
          fs_chart_config_width = orNumber (cfg_width config) 600,
          fs_chart_config_height = orNumber (cfg_height config) 400,
          fs_chart_config_padding = (20, 30, 40, 50),
          fs_chart_config_background = ''#ffffff'',
          fs_chart_config_title_text = titleOr config [],
          fs_chart_config_title_fontSize = 16,
          fs_chart_config_title_anchor = ''middle'',
          fs_interactions_tooltip = True,
          fs_interactions_zoom = False,
          fs_interactions_brush = False,
          fs_interactions_click = ''none'',
          fs_vegaLiteSpec = vegaSpec\<rparr>)"

subsection \<open>ChartBuilder.updateChart\<close>

text \<open>
  The controller's state that \<open>updateChart\<close> reads; \<open>currentData\<close> is \<open>null\<close> until a
  dataset is loaded. The function shows the placeholder when there is no dataset or
  \<open>x\<close> or \<open>y\<close> is not mapped, and otherwise hands the specification to the renderer.
\<close>

record builder_state =
  currentData :: "dataset option"
  currentMappings :: mappings
  currentChartType :: string
  chartConfig :: chart_config

datatype chart_view = Placeholder | Render vega_spec

definition updateChart :: "builder_state \<Rightarrow> chart_view" where
  "updateChart st =
     (case currentData st of
        None \<Rightarrow> Placeholder
      | Some data \<Rightarrow>
          if mapped (currentMappings st) ''x'' = None \<or> mapped (currentMappings st) ''y'' = None
          then Placeholder
          else Render (buildSpec data (currentChartType st) (currentMappings st) (chartConfig st)))"

subsection \<open>Readings of the specification, for comparison with the code\<close>

text \<open>
  The vocabulary rule as the specification words it: the set of lower-cased distinct
  values is exactly the set of words of one of the vocabularies.
\<close>

definition spec_exactVocabulary :: "string list \<Rightarrow> bool" where
  "spec_exactVocabulary lowerValues =
     list_ex (\<lambda>pattern. set lowerValues = set pattern) ordinalPatterns"

text \<open>
  ``Parses fully as a finite number'' as the specification words it: the whole string is
  a decimal literal, and its value is finite.
\<close>

definition spec_finiteNumber :: "string \<Rightarrow> bool" where
  "spec_finiteNumber s =
     (case scanDecimal s of Some (Finite q, rest) \<Rightarrow> rest = [] | _ \<Rightarrow> False)"

section \<open>Properties\<close>

subsection \<open>Auxiliary facts\<close>

declare showNat.simps [simp del]

lemma length_filter_all: "(length (filter P xs) = length xs) = list_all P xs"
proof -
  have "length (filter P xs) + length (filter (\<lambda>x. \<not> P x) xs) = length xs"
    by (rule sum_length_filter_compl)
  then have "(length (filter P xs) = length xs) = (filter (\<lambda>x. \<not> P x) xs = [])"
    by auto
  then show ?thesis
    by (simp add: filter_empty_conv list_all_iff)
qed

lemma filter_all_id: "list_all P xs \<Longrightarrow> filter P xs = xs"
  by (induction xs) auto

lemma columnValues_data: "columnValues data column \<noteq> [] \<Longrightarrow> data \<noteq> []"
  by (auto simp: columnValues_def)

text \<open>A column with a string in it is neither all numbers nor all dates; likewise for dates.\<close>

lemma strings_not_numbers_dates:
  assumes "vs \<noteq> []" and "list_all isString vs"
  shows "\<not> list_all isNumber vs" and "\<not> list_all isDateObject vs"
proof -
  from assms obtain v ws where vs: "vs = v # ws" and s: "isString v"
    by (cases vs) auto
  from s have "\<not> isNumber v" and "\<not> isDateObject v"
    by (cases v; simp add: isString_def isNumber_def isDateObject_def)+
  with vs show "\<not> list_all isNumber vs" and "\<not> list_all isDateObject vs"
    by simp_all
qed

lemma dates_not_numbers:
  assumes "vs \<noteq> []" and "list_all isDateObject vs"
  shows "\<not> list_all isNumber vs"
proof -
  from assms obtain v ws where vs: "vs = v # ws" and s: "isDateObject v"
    by (cases vs) auto
  from s have "\<not> isNumber v"
    by (cases v; simp add: isNumber_def isDateObject_def)
  with vs show ?thesis by simp
qed








lemma matches_Cons:
  "matches (p # ps) s = (\<exists>c cs. s = c # cs \<and> (case p of D \<Rightarrow> isDigit c | L l \<Rightarrow> c = l) \<and> matches ps cs)"
  by (cases s; cases p; simp)

lemma matches_Nil: "matches [] s = (s = [])"
  by (cases s; simp)

lemma digit_facts:
  assumes "isDigit c"
  shows "\<not> isWhiteSpace c" "c \<noteq> dquote" "c \<noteq> squote" "c \<noteq> CHR ''+''" "c \<noteq> CHR ''-''"
    "c \<noteq> CHR ''I''" "c \<noteq> CHR ''x''" "c \<noteq> CHR ''X''" "c \<noteq> CHR ''o''" "c \<noteq> CHR ''O''"
    "c \<noteq> CHR ''b''" "c \<noteq> CHR ''B''" "c \<noteq> CHR ''.''"
  using assms by (auto simp: isDigit_def isWhiteSpace_def dquote_def squote_def)

lemma sep_facts:
  "\<not> isDigit (CHR ''-'')" "\<not> isDigit (CHR ''/'')"
  by (simp_all add: isDigit_def)

text \<open>
  A cell that matches a date pattern is not accepted as a number, so \<open>parseValue\<close> makes a
  \<open>Date\<close> object of it: first for the pattern \<open>YYYY-MM-DD\<close>, then for the two patterns
  with the year last.
\<close>

lemma parseValue_year_first:
  assumes "isDigit c1" "isDigit c2" "isDigit c3" "isDigit c4" "isDigit c6" "isDigit c7" "isDigit c9" "isDigit c10"
  shows "parseValue [c1, c2, c3, c4, CHR ''-'', c6, c7, CHR ''-'', c9, c10] =
         CDate [c1, c2, c3, c4, CHR ''-'', c6, c7, CHR ''-'', c9, c10]"
proof -
  let ?s = "[c1, c2, c3, c4, CHR ''-'', c6, c7, CHR ''-'', c9, c10]"
  have t: "trim ?s = ?s" using assms by (simp add: trim_def digit_facts)
  have q: "stripQuotes ?s = ?s" using assms by (simp add: stripQuotes_def startsWith_def digit_facts)
  have n: "nonDecimalLiteral ?s = None" using assms by (simp add: nonDecimalLiteral_def digit_facts)
  have u: "scanUnsigned ?s = Some (Finite (rat_of_nat (digitsValue 10 [c1, c2, c3, c4])), [CHR ''-'', c6, c7, CHR ''-'', c9, c10])"
    using assms by (simp add: scanUnsigned_def scanExponent_def digit_facts sep_facts pow10_def)
  have "isNaN ?s" using assms by (simp add: isNaN_def toNumber_def t n u scanDecimal_def digit_facts)
  moreover have "isDate ?s" using assms by (simp add: isDate_def datePatterns_def)
  ultimately show ?thesis by (simp add: parseValue_def t q)
qed


lemma parseValue_year_last:
  assumes "isDigit c1" "isDigit c2" "isDigit c4" "isDigit c5" "isDigit c7" "isDigit c8" "isDigit c9" "isDigit c10"
    and "sep = CHR ''/'' \<or> sep = CHR ''-''"
  shows "parseValue [c1, c2, sep, c4, c5, sep, c7, c8, c9, c10] =
         CDate [c1, c2, sep, c4, c5, sep, c7, c8, c9, c10]"
proof -
  let ?s = "[c1, c2, sep, c4, c5, sep, c7, c8, c9, c10]"
  from assms(9) have sep: "\<not> isDigit sep" "sep \<noteq> CHR ''.''" "sep \<noteq> CHR ''e''" "sep \<noteq> CHR ''E''"
    by (auto simp: isDigit_def)
  have t: "trim ?s = ?s" using assms by (simp add: trim_def digit_facts)
  have q: "stripQuotes ?s = ?s" using assms by (simp add: stripQuotes_def startsWith_def digit_facts)
  have n: "nonDecimalLiteral ?s = None" using assms by (simp add: nonDecimalLiteral_def digit_facts)
  have u: "scanUnsigned ?s = Some (Finite (rat_of_nat (digitsValue 10 [c1, c2])), [sep, c4, c5, sep, c7, c8, c9, c10])"
    using assms(1-8) sep by (simp add: scanUnsigned_def scanExponent_def digit_facts pow10_def)
  have "isNaN ?s" using assms(1-8) by (simp add: isNaN_def toNumber_def t n u scanDecimal_def digit_facts)
  moreover have "isDate ?s" using assms by (auto simp: isDate_def datePatterns_def)
  ultimately show ?thesis by (simp add: parseValue_def t q)
qed

lemma parseValue_date_cell:
  assumes "isDate s"
  shows "parseValue s = CDate s"
proof -
  from assms have "matches [D, D, D, D, L (CHR ''-''), D, D, L (CHR ''-''), D, D] s
      \<or> matches [D, D, L (CHR ''/''), D, D, L (CHR ''/''), D, D, D, D] s
      \<or> matches [D, D, L (CHR ''-''), D, D, L (CHR ''-''), D, D, D, D] s"
    by (simp add: isDate_def datePatterns_def)
  then show ?thesis
  proof (elim disjE)
    assume "matches [D, D, D, D, L (CHR ''-''), D, D, L (CHR ''-''), D, D] s"
    then obtain c1 c2 c3 c4 c6 c7 c9 c10 where
      "s = [c1, c2, c3, c4, CHR ''-'', c6, c7, CHR ''-'', c9, c10]"
      "isDigit c1" "isDigit c2" "isDigit c3" "isDigit c4" "isDigit c6" "isDigit c7" "isDigit c9" "isDigit c10"
      by (auto simp: matches_Cons matches_Nil)
    then show ?thesis by (simp add: parseValue_year_first)
  next
    assume "matches [D, D, L (CHR ''/''), D, D, L (CHR ''/''), D, D, D, D] s"
    then obtain c1 c2 c4 c5 c7 c8 c9 c10 where
      "s = [c1, c2, CHR ''/'', c4, c5, CHR ''/'', c7, c8, c9, c10]"
      "isDigit c1" "isDigit c2" "isDigit c4" "isDigit c5" "isDigit c7" "isDigit c8" "isDigit c9" "isDigit c10"
      by (auto simp: matches_Cons matches_Nil)
    then show ?thesis by (simp add: parseValue_year_last)
  next
    assume "matches [D, D, L (CHR ''-''), D, D, L (CHR ''-''), D, D, D, D] s"
    then obtain c1 c2 c4 c5 c7 c8 c9 c10 where
      "s = [c1, c2, CHR ''-'', c4, c5, CHR ''-'', c7, c8, c9, c10]"
      "isDigit c1" "isDigit c2" "isDigit c4" "isDigit c5" "isDigit c7" "isDigit c8" "isDigit c9" "isDigit c10"
      by (auto simp: matches_Cons matches_Nil)
    then show ?thesis by (simp add: parseValue_year_last)
  qed
qed

subsection \<open>Mapping validation\<close>

text \<open>
  C1. The claim has \<open>validateMapping\<close> accept a nominal (and an ordinal) column on the
  \<open>y\<close> channel. The function rejects it: the table lists only \<open>quantitative\<close> for
  \<open>y\<close>, the membership test returns \<open>false\<close> first, and the later special case
  that would allow a categorical \<open>y\<close> is never reached.
\<close>

theorem validateMapping_y_nominal_rejected:
  "validateMapping ''y'' \<lparr>fm_column = ''name'', fm_type = Nominal\<rparr> = False
   \<and> validateMapping ''y'' \<lparr>fm_column = ''rating'', fm_type = Ordinal\<rparr> = False"
  by (simp add: validateMapping_def validMappings_def)

text \<open>
  What the function decides on the four channels is membership in the table and nothing
  else: \<open>x\<close>, \<open>color\<close> and \<open>size\<close> are as the specification's table has them, and
  \<open>y\<close> takes quantitative columns only.
\<close>

lemma validateMapping_table:
  "validateMapping ''x'' d = True"
  "validateMapping ''y'' d = (fm_type d = Quantitative)"
  "validateMapping ''color'' d = (fm_type d \<noteq> Temporal)"
  "validateMapping ''size'' d = (fm_type d = Quantitative)"
  by (cases "fm_type d"; simp add: validateMapping_def validMappings_def)+

subsection \<open>Type inference\<close>

text \<open>
  Every vocabulary has a word of more than 3 characters, so distinct values that contain
  a vocabulary are never all short.
\<close>

lemma long_word_not_all_short:
  assumes "p \<in> set (map toLowerCase u)" and "3 < length p"
  shows "\<not> list_all (\<lambda>v. length v \<le> 3) u"
proof -
  from assms(1) obtain v where "v \<in> set u" and "length v = length p"
    by (auto simp: toLowerCase_def)
  with assms(2) have "v \<in> set u" and "\<not> length v \<le> 3" by simp_all
  then show ?thesis unfolding list_all_iff by blast
qed

lemma vocabulary_match_not_all_short:
  assumes "matchesOrdinalPattern (map toLowerCase u)"
  shows "\<not> list_all (\<lambda>v. length v \<le> 3) u"
proof -
  from assms have "''medium'' \<in> set (map toLowerCase u) \<or> ''poor'' \<in> set (map toLowerCase u)
      \<or> ''never'' \<in> set (map toLowerCase u)"
    unfolding matchesOrdinalPattern_def ordinalPatterns_def by simp blast
  then show ?thesis
  proof (elim disjE)
    assume "''medium'' \<in> set (map toLowerCase u)"
    then show ?thesis by (rule long_word_not_all_short) simp
  next
    assume "''poor'' \<in> set (map toLowerCase u)"
    then show ?thesis by (rule long_word_not_all_short) simp
  next
    assume "''never'' \<in> set (map toLowerCase u)"
    then show ?thesis by (rule long_word_not_all_short) simp
  qed
qed

text \<open>Distinct values that are exactly a vocabulary contain it.\<close>

lemma exactVocabulary_matches: "spec_exactVocabulary lowerValues \<Longrightarrow> matchesOrdinalPattern lowerValues"
  by (auto simp: spec_exactVocabulary_def matchesOrdinalPattern_def list_ex_iff list_all_iff)

text \<open>
  The all-strings branch as the code runs it: with fewer distinct values than half the
  values and fewer than 20, the test of the vocabularies comes first (it asks that the
  lower-cased distinct values contain every word of a vocabulary), then the test of the
  lengths.
\<close>

lemma inferColumnType_strings_branch:
  assumes "columnValues data column \<noteq> []"
    and "list_all isString (columnValues data column)"
    and "2 * length (unique (map stringOf (columnValues data column))) < length (columnValues data column)"
    and "length (unique (map stringOf (columnValues data column))) < 20"
  shows "inferColumnType data column =
     (if matchesOrdinalPattern (map toLowerCase (unique (map stringOf (columnValues data column))))
      then Ordinal
      else if list_all (\<lambda>v. length v \<le> 3) (unique (map stringOf (columnValues data column)))
        then Nominal
      else Ordinal)"
proof -
  let ?vs = "columnValues data column"
  from assms(1) have d: "data \<noteq> []" by (rule columnValues_data)
  note n = strings_not_numbers_dates [OF assms(1,2)]
  from assms(2) have f: "filter isString ?vs = ?vs" by (rule filter_all_id)
  from d assms n f show ?thesis
    by (simp add: inferColumnType_def Let_def length_filter_all)
qed

text \<open>
  C2. In the all-strings branch, with fewer distinct values than half the values and
  fewer than 20, the column is ordinal if the lower-cased distinct values are exactly the
  words of one vocabulary; otherwise it is nominal if every distinct value has at most 3
  characters, and ordinal if not. Distinct values that contain a vocabulary as a proper
  subset get their type from the lengths, as the claim says: the code answers
  \<open>ordinal\<close> for them at its test of the vocabularies, and so does the test of the
  lengths, since a word of the vocabulary is longer than 3 characters.
\<close>

theorem inferColumnType_vocabulary_rule:
  assumes "columnValues data column \<noteq> []"
    and "list_all isString (columnValues data column)"
    and "2 * length (unique (map stringOf (columnValues data column))) < length (columnValues data column)"
    and "length (unique (map stringOf (columnValues data column))) < 20"
  shows "inferColumnType data column =
     (if spec_exactVocabulary (map toLowerCase (unique (map stringOf (columnValues data column))))
      then Ordinal
      else if list_all (\<lambda>v. length v \<le> 3) (unique (map stringOf (columnValues data column)))
        then Nominal
      else Ordinal)"
proof -
  let ?u = "unique (map stringOf (columnValues data column))"
  note c = inferColumnType_strings_branch [OF assms]
  show ?thesis
  proof (cases "matchesOrdinalPattern (map toLowerCase ?u)")
    case True
    then have "\<not> list_all (\<lambda>v. length v \<le> 3) ?u" by (rule vocabulary_match_not_all_short)
    with True c show ?thesis by simp
  next
    case False
    then have "\<not> spec_exactVocabulary (map toLowerCase ?u)"
      using exactVocabulary_matches by blast
    with False c show ?thesis by simp
  qed
qed

text \<open>
  Witness: nine rows that cycle through \<open>Low\<close>, \<open>MEDIUM\<close>, \<open>high\<close>, whose distinct values
  are, without regard to case, exactly the first vocabulary; and twelve rows that cycle
  through \<open>low\<close>, \<open>medium\<close>, \<open>high\<close>, \<open>extreme\<close>, whose distinct values contain it as a
  proper subset. Both columns are ordinal.
\<close>

theorem inferColumnType_vocabulary_rule_witness:
  "spec_exactVocabulary (map toLowerCase (unique (map stringOf (columnValues
       (map (\<lambda>s. [(''level'', CStr s)]) (concat (replicate 3 [''Low'', ''MEDIUM'', ''high'']))) ''level''))))
   \<and> inferColumnType (map (\<lambda>s. [(''level'', CStr s)])
       (concat (replicate 3 [''Low'', ''MEDIUM'', ''high'']))) ''level'' = Ordinal
   \<and> \<not> spec_exactVocabulary (map toLowerCase (unique (map stringOf (columnValues
       (map (\<lambda>s. [(''level'', CStr s)])
          (concat (replicate 3 [''low'', ''medium'', ''high'', ''extreme'']))) ''level''))))
   \<and> inferColumnType (map (\<lambda>s. [(''level'', CStr s)])
       (concat (replicate 3 [''low'', ''medium'', ''high'', ''extreme'']))) ''level'' = Ordinal"
proof -
  let ?d = "map (\<lambda>s. [(''level'', CStr s)]) (concat (replicate 3 [''Low'', ''MEDIUM'', ''high'']))"
  let ?u = "unique (map stringOf (columnValues ?d ''level''))"
  let ?e = "map (\<lambda>s. [(''level'', CStr s)]) (concat (replicate 3 [''low'', ''medium'', ''high'', ''extreme'']))"
  let ?w = "unique (map stringOf (columnValues ?e ''level''))"
  have d1: "columnValues ?d ''level'' \<noteq> []" by code_simp
  have d2: "list_all isString (columnValues ?d ''level'')" by code_simp
  have d3: "2 * length ?u < length (columnValues ?d ''level'')" by code_simp
  have d4: "length ?u < 20" by code_simp
  have dx: "spec_exactVocabulary (map toLowerCase ?u)" by code_simp
  from inferColumnType_vocabulary_rule [OF d1 d2 d3 d4] dx
  have rd: "inferColumnType ?d ''level'' = Ordinal" by simp
  have e1: "columnValues ?e ''level'' \<noteq> []" by code_simp
  have e2: "list_all isString (columnValues ?e ''level'')" by code_simp
  have e3: "2 * length ?w < length (columnValues ?e ''level'')" by code_simp
  have e4: "length ?w < 20" by code_simp
  have ex: "\<not> spec_exactVocabulary (map toLowerCase ?w)" by code_simp
  have es: "\<not> list_all (\<lambda>v. length v \<le> 3) ?w" by code_simp
  from inferColumnType_vocabulary_rule [OF e1 e2 e3 e4] ex es
  have re: "inferColumnType ?e ''level'' = Ordinal" by simp
  from dx rd ex re show ?thesis by blast
qed

text \<open>
  C4, as the code has it. A column with at least one value that is not \<open>null\<close>, all of
  whose such values are \<open>Date\<close> objects, is temporal; and a \<open>Date\<close> object is what
  \<open>parseValue\<close> makes of every raw cell that matches one of the three date patterns.
\<close>

theorem inferColumnType_date_objects_temporal:
  "(isDate raw \<longrightarrow> parseValue raw = CDate raw)
   \<and> (columnValues data column \<noteq> [] \<and> list_all isDateObject (columnValues data column) \<longrightarrow>
        inferColumnType data column = Temporal)"
proof (intro conjI impI)
  assume "isDate raw"
  then show "parseValue raw = CDate raw" by (rule parseValue_date_cell)
next
  assume a: "columnValues data column \<noteq> [] \<and> list_all isDateObject (columnValues data column)"
  then have d: "data \<noteq> []" using columnValues_data by blast
  from a have "\<not> list_all isNumber (columnValues data column)" using dates_not_numbers by blast
  with a d show "inferColumnType data column = Temporal"
    by (simp add: inferColumnType_def Let_def length_filter_all)
qed

text \<open>
  Witness: three rows as \<open>parseCSV\<close> makes them of the cells \<open>2023-01-01\<close>, an empty cell
  and \<open>01/02/2023\<close>.
\<close>

theorem inferColumnType_date_objects_temporal_witness:
  "isDate ''2023-01-01''
   \<and> parseValue ''2023-01-01'' = CDate ''2023-01-01''
   \<and> columnValues [[(''day'', CDate ''2023-01-01'')], [(''day'', CNull)],
                    [(''day'', CDate ''01/02/2023'')]] ''day'' \<noteq> []
   \<and> list_all isDateObject (columnValues [[(''day'', CDate ''2023-01-01'')], [(''day'', CNull)],
                    [(''day'', CDate ''01/02/2023'')]] ''day'')
   \<and> inferColumnType [[(''day'', CDate ''2023-01-01'')], [(''day'', CNull)],
                    [(''day'', CDate ''01/02/2023'')]] ''day'' = Temporal"
proof -
  let ?d = "[[(''day'', CDate ''2023-01-01'')], [(''day'', CNull)], [(''day'', CDate ''01/02/2023'')]]"
  note t = inferColumnType_date_objects_temporal [of "''2023-01-01''" ?d "''day''"]
  have i: "isDate ''2023-01-01''" by code_simp
  have h1: "columnValues ?d ''day'' \<noteq> []" by code_simp
  have h2: "list_all isDateObject (columnValues ?d ''day'')" by code_simp
  from t i have p: "parseValue ''2023-01-01'' = CDate ''2023-01-01''" by blast
  from t h1 h2 have "inferColumnType ?d ''day'' = Temporal" by blast
  with i p h1 h2 show ?thesis by blast
qed

text \<open>
  C4, against the claim as written. A one-row dataset, as JSON gives it, whose cell is the
  string \<open>2023-01-01\<close>: the value matches the first date pattern, and the column is
  nominal, not temporal.
\<close>

theorem date_strings_not_temporal_counterexample:
  "isDate ''2023-01-01''
   \<and> inferColumnType [[(''day'', CStr ''2023-01-01'')]] ''day'' = Nominal"
  by code_simp

text \<open>
  C10. A column whose values other than \<open>null\<close> are not all numbers, not all \<open>Date\<close>
  objects and not all strings is nominal.
\<close>

theorem inferColumnType_mixed_kinds_nominal:
  assumes "\<not> list_all isNumber (columnValues data column)"
    and "\<not> list_all isDateObject (columnValues data column)"
    and "\<not> list_all isString (columnValues data column)"
  shows "inferColumnType data column = Nominal"
  using assms by (simp add: inferColumnType_def Let_def length_filter_all)

theorem inferColumnType_mixed_kinds_nominal_witness:
  "\<not> list_all isNumber (columnValues [[(''code'', CNum (Finite 1))], [(''code'', CStr ''a'')]] ''code'')
   \<and> \<not> list_all isDateObject (columnValues [[(''code'', CNum (Finite 1))], [(''code'', CStr ''a'')]] ''code'')
   \<and> \<not> list_all isString (columnValues [[(''code'', CNum (Finite 1))], [(''code'', CStr ''a'')]] ''code'')
   \<and> inferColumnType [[(''code'', CNum (Finite 1))], [(''code'', CStr ''a'')]] ''code'' = Nominal"
proof -
  let ?d = "[[(''code'', CNum (Finite 1))], [(''code'', CStr ''a'')]]"
  have h1: "\<not> list_all isNumber (columnValues ?d ''code'')" by code_simp
  have h2: "\<not> list_all isDateObject (columnValues ?d ''code'')" by code_simp
  have h3: "\<not> list_all isString (columnValues ?d ''code'')" by code_simp
  from h1 h2 h3 inferColumnType_mixed_kinds_nominal [OF h1 h2 h3] show ?thesis by blast
qed

subsection \<open>Value parsing\<close>

text \<open>
  C3, as the code has it. For a raw cell that is not empty, let \<open>v\<close> be its trimmed text
  without matching surrounding quotes. If numeric coercion rejects \<open>v\<close> (\<open>isNaN\<close>) or
  \<open>v\<close> is empty, and \<open>v\<close> matches no date pattern, the result is the string \<open>v\<close>. If
  numeric coercion accepts a non-empty \<open>v\<close>, the result is the number \<open>parseFloat v\<close>.
\<close>

theorem parseValue_string_or_number:
  assumes "raw \<noteq> []"
  shows "((isNaN (stripQuotes (trim raw)) \<or> stripQuotes (trim raw) = []) \<and>
          \<not> isDate (stripQuotes (trim raw)) \<longrightarrow>
            parseValue raw = CStr (stripQuotes (trim raw)))
       \<and> (\<not> isNaN (stripQuotes (trim raw)) \<and> stripQuotes (trim raw) \<noteq> [] \<longrightarrow>
            parseValue raw = CNum (parseFloat (stripQuotes (trim raw))))"
  using assms by (auto simp: parseValue_def Let_def)

theorem parseValue_string_or_number_witness:
  "'' N/A '' \<noteq> []
   \<and> isNaN (stripQuotes (trim '' N/A ''))
   \<and> \<not> isDate (stripQuotes (trim '' N/A ''))
   \<and> parseValue '' N/A '' = CStr ''N/A''"
proof -
  have h: "'' N/A '' \<noteq> []" by simp
  have n: "isNaN (stripQuotes (trim '' N/A ''))" by code_simp
  have d: "\<not> isDate (stripQuotes (trim '' N/A ''))" by code_simp
  have v: "stripQuotes (trim '' N/A '') = ''N/A''" by code_simp
  from parseValue_string_or_number [OF h] n d
  have "parseValue '' N/A '' = CStr (stripQuotes (trim '' N/A ''))" by blast
  with h n d v show ?thesis by simp
qed

text \<open>
  C3, against the claim as written. \<open>Infinity\<close> and \<open>0x10\<close> are not empty, are not
  decimal literals of finite numbers and match no date pattern, and each comes back as a
  number: numeric coercion accepts both, and \<open>parseFloat\<close> gives infinity for the first
  and, reading the leading \<open>0\<close> only, zero for the second.
\<close>

theorem parseValue_non_finite_counterexample:
  "\<not> spec_finiteNumber ''Infinity'' \<and> \<not> isDate ''Infinity''
   \<and> parseValue ''Infinity'' = CNum PosInfinity
   \<and> \<not> spec_finiteNumber ''0x10'' \<and> \<not> isDate ''0x10''
   \<and> parseValue ''0x10'' = CNum (Finite 0)"
  by code_simp

subsection \<open>CSV parsing\<close>

text \<open>
  C6. The scenario of the specification: the text \<open>name,value\<close>, \<open>A,30\<close>, \<open>B,80\<close>, each
  line ended by a line feed, parses to the two rows with numeric \<open>value\<close> cells;
  \<open>value\<close> is quantitative and \<open>name\<close> is nominal.
\<close>

theorem parseCSV_scenario:
  "parseCSV (''name,value'' @ [newline] @ ''A,30'' @ [newline] @ ''B,80'' @ [newline]) (CHR '','') =
     Inr [[(''name'', CStr ''A''), (''value'', CNum (Finite 30))],
          [(''name'', CStr ''B''), (''value'', CNum (Finite 80))]]
   \<and> inferColumnType [[(''name'', CStr ''A''), (''value'', CNum (Finite 30))],
                       [(''name'', CStr ''B''), (''value'', CNum (Finite 80))]] ''value'' = Quantitative
   \<and> inferColumnType [[(''name'', CStr ''A''), (''value'', CNum (Finite 30))],
                       [(''name'', CStr ''B''), (''value'', CNum (Finite 80))]] ''name'' = Nominal"
  by code_simp




subsection \<open>Specification building\<close>

text \<open>
  C7. With chart type \<open>bar\<close>, \<open>x\<close> mapped to \<open>colA\<close> and \<open>y\<close> mapped to \<open>colB\<close>, the
  specification has the column name of \<open>colA\<close> as \<open>encoding.x.field\<close> and that of
  \<open>colB\<close> as \<open>encoding.y.field\<close>, for every dataset and every configuration (and
  whatever else is mapped).
\<close>

theorem buildSpec_bar_fields:
  assumes "mapped ms ''x'' = Some colA" and "mapped ms ''y'' = Some colB"
  shows "map_option pos_field (enc_x (vs_encoding (buildSpec data ''bar'' ms config))) = Some (fm_column colA)
       \<and> map_option pos_field (enc_y (vs_encoding (buildSpec data ''bar'' ms config))) = Some (fm_column colB)"
  using assms by (simp add: buildSpec_def buildEncoding_def positionChannel_def)

theorem buildSpec_bar_fields_witness:
  "mapped [(''x'', Some \<lparr>fm_column = ''name'', fm_type = Nominal\<rparr>),
           (''y'', Some \<lparr>fm_column = ''value'', fm_type = Quantitative\<rparr>),
           (''color'', None), (''size'', None)] ''x'' = Some \<lparr>fm_column = ''name'', fm_type = Nominal\<rparr>
   \<and> mapped [(''x'', Some \<lparr>fm_column = ''name'', fm_type = Nominal\<rparr>),
           (''y'', Some \<lparr>fm_column = ''value'', fm_type = Quantitative\<rparr>),
           (''color'', None), (''size'', None)] ''y'' = Some \<lparr>fm_column = ''value'', fm_type = Quantitative\<rparr>
   \<and> map_option pos_field (enc_x (vs_encoding (buildSpec
         [[(''name'', CStr ''A''), (''value'', CNum (Finite 30))]] ''bar''
         [(''x'', Some \<lparr>fm_column = ''name'', fm_type = Nominal\<rparr>),
          (''y'', Some \<lparr>fm_column = ''value'', fm_type = Quantitative\<rparr>),
          (''color'', None), (''size'', None)]
         \<lparr>cfg_title = Some [], cfg_width = Some (Finite 600), cfg_height = Some (Finite 400)\<rparr>))) = Some ''name''
   \<and> map_option pos_field (enc_y (vs_encoding (buildSpec
         [[(''name'', CStr ''A''), (''value'', CNum (Finite 30))]] ''bar''
         [(''x'', Some \<lparr>fm_column = ''name'', fm_type = Nominal\<rparr>),
          (''y'', Some \<lparr>fm_column = ''value'', fm_type = Quantitative\<rparr>),
          (''color'', None), (''size'', None)]
         \<lparr>cfg_title = Some [], cfg_width = Some (Finite 600), cfg_height = Some (Finite 400)\<rparr>))) = Some ''value''"
proof -
  let ?ms = "[(''x'', Some \<lparr>fm_column = ''name'', fm_type = Nominal\<rparr>),
              (''y'', Some \<lparr>fm_column = ''value'', fm_type = Quantitative\<rparr>),
              (''color'', None), (''size'', None)]"
  have hx: "mapped ?ms ''x'' = Some \<lparr>fm_column = ''name'', fm_type = Nominal\<rparr>"
    by (simp add: mapped_def)
  have hy: "mapped ?ms ''y'' = Some \<lparr>fm_column = ''value'', fm_type = Quantitative\<rparr>"
    by (simp add: mapped_def)
  from hx hy buildSpec_bar_fields [OF hx hy] show ?thesis by simp
qed

text \<open>
  C8. For chart type \<open>scatter\<close> with no colour mapped (as when only \<open>x\<close> and \<open>y\<close> are),
  the mark of the Vega-Lite specification inside the full specification is the circle
  mark with tooltip on and the default size 60, and nothing else; the interactions
  descriptor has the tooltip on as well.
\<close>

theorem buildFullSpec_scatter_mark:
  assumes "mapped ms ''color'' = None"
  shows "vs_mark (fs_vegaLiteSpec (buildFullSpec chartId now data ''scatter'' ms config)) =
           \<lparr>mark_type = ''circle'', mark_tooltip = True, mark_size = Some 60, mark_point = None,
            mark_stroke = None, mark_strokeWidth = None\<rparr>
       \<and> fs_interactions_tooltip (buildFullSpec chartId now data ''scatter'' ms config) = True"
  using assms
  by (simp add: buildFullSpec_def Let_def buildSpec_def buildMark_def markConfigs_def plainMark_def)

theorem buildFullSpec_scatter_mark_witness:
  "mapped [(''x'', Some \<lparr>fm_column = ''sepalLength'', fm_type = Quantitative\<rparr>),
           (''y'', Some \<lparr>fm_column = ''petalLength'', fm_type = Quantitative\<rparr>)] ''color'' = None
   \<and> vs_mark (fs_vegaLiteSpec (buildFullSpec ''chart_1'' ''2024-01-01T00:00:00.000Z''
         [[(''sepalLength'', CNum (Finite 5)), (''petalLength'', CNum (Finite 2))]] ''scatter''
         [(''x'', Some \<lparr>fm_column = ''sepalLength'', fm_type = Quantitative\<rparr>),
          (''y'', Some \<lparr>fm_column = ''petalLength'', fm_type = Quantitative\<rparr>)]
         \<lparr>cfg_title = Some [], cfg_width = Some (Finite 600), cfg_height = Some (Finite 400)\<rparr>)) =
       \<lparr>mark_type = ''circle'', mark_tooltip = True, mark_size = Some 60, mark_point = None,
        mark_stroke = None, mark_strokeWidth = None\<rparr>"
proof -
  let ?ms = "[(''x'', Some \<lparr>fm_column = ''sepalLength'', fm_type = Quantitative\<rparr>),
              (''y'', Some \<lparr>fm_column = ''petalLength'', fm_type = Quantitative\<rparr>)]"
  have h: "mapped ?ms ''color'' = None" by (simp add: mapped_def)
  from h buildFullSpec_scatter_mark [OF h] show ?thesis by blast
qed

text \<open>
  On \<open>{ column, type }\<close> entries the function on a mappings object is \<open>buildSpec\<close>.
\<close>

lemma buildSpec_four_channels:
  "buildSpec data chartType
     [(''x'', mapped ms ''x''), (''y'', mapped ms ''y''), (''color'', mapped ms ''color''),
      (''size'', mapped ms ''size'')] config = buildSpec data chartType ms config"
  by (simp add: buildSpec_def buildEncoding_def buildMark_def mapped_def split: option.splits)

lemma buildSpecOn_typed:
  "buildSpecOn data chartType
     (map (\<lambda>(k, m). (k, map_option (\<lambda>f. \<lparr>me_column = Some (fm_column f), me_type = fm_type f\<rparr>) m)) ms)
     config = Inr (buildSpec data chartType ms config)"
proof -
  let ?mo = "map (\<lambda>(k, m). (k, map_option (\<lambda>f. \<lparr>me_column = Some (fm_column f), me_type = fm_type f\<rparr>) m)) ms"
  have "\<And>k. readChannel ?mo k = Inr (mapped ms k)"
    by (simp add: readChannel_def entryOf_def mapped_def map_of_map split: option.splits)
  then show ?thesis
    by (simp add: buildSpecOn_def buildSpec_four_channels)
qed

text \<open>
  C5, as the code has it. \<open>buildSpec\<close> has no guard: whatever the dataset (the empty one
  too), the chart type and the configuration, and whichever channels are mapped, as long
  as every entry among \<open>x\<close>, \<open>y\<close>, \<open>color\<close> and \<open>size\<close> that is there has a column name,
  it returns a specification, which carries the dataset as it is and has an encoding
  entry for exactly the channels that are mapped. The caller \<open>updateChart\<close> tests that a
  dataset is loaded and that \<open>x\<close> and \<open>y\<close> are mapped, and nothing else: it shows the
  placeholder exactly when one of the three fails, and otherwise calls \<open>buildSpec\<close> on
  the dataset, be it empty or not.
\<close>

theorem buildSpec_no_validation:
  "(columnsPresent mo \<longrightarrow>
      (\<exists>spec. buildSpecOn data chartType mo config = Inr spec
         \<and> vs_data_values spec = data
         \<and> (enc_x (vs_encoding spec) = None) = (entryOf mo ''x'' = None)
         \<and> (enc_y (vs_encoding spec) = None) = (entryOf mo ''y'' = None)
         \<and> (enc_color (vs_encoding spec) = None) = (entryOf mo ''color'' = None)
         \<and> (enc_size (vs_encoding spec) = None) = (entryOf mo ''size'' = None)))
   \<and> (updateChart st = Placeholder) =
       (currentData st = None \<or> mapped (currentMappings st) ''x'' = None
          \<or> mapped (currentMappings st) ''y'' = None)
   \<and> (\<forall>rows. currentData st = Some rows \<and> mapped (currentMappings st) ''x'' \<noteq> None
          \<and> mapped (currentMappings st) ''y'' \<noteq> None \<longrightarrow>
        updateChart st = Render (buildSpec rows (currentChartType st) (currentMappings st) (chartConfig st)))"
proof (intro conjI impI allI)
  assume "columnsPresent mo"
  then show "\<exists>spec. buildSpecOn data chartType mo config = Inr spec
         \<and> vs_data_values spec = data
         \<and> (enc_x (vs_encoding spec) = None) = (entryOf mo ''x'' = None)
         \<and> (enc_y (vs_encoding spec) = None) = (entryOf mo ''y'' = None)
         \<and> (enc_color (vs_encoding spec) = None) = (entryOf mo ''color'' = None)
         \<and> (enc_size (vs_encoding spec) = None) = (entryOf mo ''size'' = None)"
    by (auto simp: columnsPresent_def buildSpecOn_def readChannel_def buildSpec_def
          buildEncoding_def mapped_def split: option.splits)
next
  show "(updateChart st = Placeholder) =
       (currentData st = None \<or> mapped (currentMappings st) ''x'' = None
          \<or> mapped (currentMappings st) ''y'' = None)"
    by (auto simp: updateChart_def split: option.splits)
next
  fix rows
  assume "currentData st = Some rows \<and> mapped (currentMappings st) ''x'' \<noteq> None
          \<and> mapped (currentMappings st) ''y'' \<noteq> None"
  then show "updateChart st =
      Render (buildSpec rows (currentChartType st) (currentMappings st) (chartConfig st))"
    by (auto simp: updateChart_def)
qed

text \<open>
  Witness: the empty dataset with \<open>x\<close> and \<open>y\<close> mapped. \<open>buildSpec\<close> returns a
  specification with no rows and the two encoding entries, and \<open>updateChart\<close> in such a
  state calls it.
\<close>

theorem buildSpec_no_validation_witness:
  "columnsPresent [(''x'', Some \<lparr>me_column = Some ''name'', me_type = Nominal\<rparr>),
                   (''y'', Some \<lparr>me_column = Some ''value'', me_type = Quantitative\<rparr>),
                   (''color'', None), (''size'', None)]
   \<and> (\<exists>spec. buildSpecOn [] ''bar''
                 [(''x'', Some \<lparr>me_column = Some ''name'', me_type = Nominal\<rparr>),
                  (''y'', Some \<lparr>me_column = Some ''value'', me_type = Quantitative\<rparr>),
                  (''color'', None), (''size'', None)]
                 \<lparr>cfg_title = Some [], cfg_width = Some (Finite 600), cfg_height = Some (Finite 400)\<rparr> = Inr spec
          \<and> vs_data_values spec = []
          \<and> enc_x (vs_encoding spec) \<noteq> None \<and> enc_y (vs_encoding spec) \<noteq> None
          \<and> enc_color (vs_encoding spec) = None \<and> enc_size (vs_encoding spec) = None)
   \<and> updateChart \<lparr>currentData = Some [],
         currentMappings = [(''x'', Some \<lparr>fm_column = ''name'', fm_type = Nominal\<rparr>),
                            (''y'', Some \<lparr>fm_column = ''value'', fm_type = Quantitative\<rparr>),
                            (''color'', None), (''size'', None)],
         currentChartType = ''bar'',
         chartConfig = \<lparr>cfg_title = Some [], cfg_width = Some (Finite 600), cfg_height = Some (Finite 400)\<rparr>\<rparr>
       = Render (buildSpec [] ''bar''
           [(''x'', Some \<lparr>fm_column = ''name'', fm_type = Nominal\<rparr>),
            (''y'', Some \<lparr>fm_column = ''value'', fm_type = Quantitative\<rparr>),
            (''color'', None), (''size'', None)]
           \<lparr>cfg_title = Some [], cfg_width = Some (Finite 600), cfg_height = Some (Finite 400)\<rparr>)"
proof -
  let ?mo = "[(''x'', Some \<lparr>me_column = Some ''name'', me_type = Nominal\<rparr>),
              (''y'', Some \<lparr>me_column = Some ''value'', me_type = Quantitative\<rparr>),
              (''color'', None), (''size'', None)]"
  let ?ms = "[(''x'', Some \<lparr>fm_column = ''name'', fm_type = Nominal\<rparr>),
              (''y'', Some \<lparr>fm_column = ''value'', fm_type = Quantitative\<rparr>),
              (''color'', None), (''size'', None)]"
  let ?cfg = "\<lparr>cfg_title = Some [], cfg_width = Some (Finite 600), cfg_height = Some (Finite 400)\<rparr>"
  let ?st = "\<lparr>currentData = Some [], currentMappings = ?ms, currentChartType = ''bar'', chartConfig = ?cfg\<rparr>"
  note t = buildSpec_no_validation [of ?mo "[]" "''bar''" ?cfg ?st]
  have cp: "columnsPresent ?mo" by (simp add: columnsPresent_def entryOf_def)
  have en: "entryOf ?mo ''x'' \<noteq> None" "entryOf ?mo ''y'' \<noteq> None"
    "entryOf ?mo ''color'' = None" "entryOf ?mo ''size'' = None"
    by (simp_all add: entryOf_def)
  have gd: "currentData ?st = Some [] \<and> mapped (currentMappings ?st) ''x'' \<noteq> None
      \<and> mapped (currentMappings ?st) ''y'' \<noteq> None"
    by (simp add: mapped_def)
  from t have t1: "columnsPresent ?mo \<longrightarrow>
      (\<exists>spec. buildSpecOn [] ''bar'' ?mo ?cfg = Inr spec
         \<and> vs_data_values spec = []
         \<and> (enc_x (vs_encoding spec) = None) = (entryOf ?mo ''x'' = None)
         \<and> (enc_y (vs_encoding spec) = None) = (entryOf ?mo ''y'' = None)
         \<and> (enc_color (vs_encoding spec) = None) = (entryOf ?mo ''color'' = None)
         \<and> (enc_size (vs_encoding spec) = None) = (entryOf ?mo ''size'' = None))"
    by (rule conjunct1)
  from t1 cp have "\<exists>spec. buildSpecOn [] ''bar'' ?mo ?cfg = Inr spec
         \<and> vs_data_values spec = []
         \<and> (enc_x (vs_encoding spec) = None) = (entryOf ?mo ''x'' = None)
         \<and> (enc_y (vs_encoding spec) = None) = (entryOf ?mo ''y'' = None)
         \<and> (enc_color (vs_encoding spec) = None) = (entryOf ?mo ''color'' = None)
         \<and> (enc_size (vs_encoding spec) = None) = (entryOf ?mo ''size'' = None)"
    by (rule mp)
  then obtain spec where sp: "buildSpecOn [] ''bar'' ?mo ?cfg = Inr spec"
    and s0: "vs_data_values spec = []"
    and sx: "(enc_x (vs_encoding spec) = None) = (entryOf ?mo ''x'' = None)"
    and sy: "(enc_y (vs_encoding spec) = None) = (entryOf ?mo ''y'' = None)"
    and sc: "(enc_color (vs_encoding spec) = None) = (entryOf ?mo ''color'' = None)"
    and ss: "(enc_size (vs_encoding spec) = None) = (entryOf ?mo ''size'' = None)"
    by (elim exE conjE)
  from sx en(1) have x: "enc_x (vs_encoding spec) \<noteq> None" by (simp only: simp_thms)
  from sy en(2) have y: "enc_y (vs_encoding spec) \<noteq> None" by (simp only: simp_thms)
  from sc en(3) have c: "enc_color (vs_encoding spec) = None" by (simp only: simp_thms)
  from ss en(4) have z: "enc_size (vs_encoding spec) = None" by (simp only: simp_thms)
  from sp s0 x y c z have a: "\<exists>spec. buildSpecOn [] ''bar'' ?mo ?cfg = Inr spec
          \<and> vs_data_values spec = []
          \<and> enc_x (vs_encoding spec) \<noteq> None \<and> enc_y (vs_encoding spec) \<noteq> None
          \<and> enc_color (vs_encoding spec) = None \<and> enc_size (vs_encoding spec) = None"
    by (intro exI [of _ spec] conjI)
  from t have t3: "\<forall>rows. currentData ?st = Some rows \<and> mapped (currentMappings ?st) ''x'' \<noteq> None
          \<and> mapped (currentMappings ?st) ''y'' \<noteq> None \<longrightarrow>
        updateChart ?st = Render (buildSpec rows (currentChartType ?st) (currentMappings ?st) (chartConfig ?st))"
    by (rule conjunct2 [OF conjunct2])
  from t3 have "currentData ?st = Some [] \<and> mapped (currentMappings ?st) ''x'' \<noteq> None
          \<and> mapped (currentMappings ?st) ''y'' \<noteq> None \<longrightarrow>
        updateChart ?st = Render (buildSpec [] (currentChartType ?st) (currentMappings ?st) (chartConfig ?st))"
    by (rule spec)
  from this gd
  have "updateChart ?st = Render (buildSpec [] (currentChartType ?st) (currentMappings ?st) (chartConfig ?st))"
    by (rule mp)
  then have b: "updateChart ?st = Render (buildSpec [] ''bar'' ?ms ?cfg)" by simp
  from cp a b show ?thesis by (intro conjI)
qed

text \<open>
  C5, against the claim as written. First, the caller does not test for an empty dataset:
  with the empty dataset loaded and \<open>x\<close> and \<open>y\<close> mapped, \<open>updateChart\<close> calls
  \<open>buildSpec\<close> on it. Second, \<open>buildSpec\<close> can raise: on the mappings object of
  \<open>ChartBuilderV2\<close>, whose entries are \<open>{ field, type }\<close>, the column is \<open>undefined\<close>
  and the call ends in a \<open>TypeError\<close>.
\<close>

theorem buildSpec_empty_dataset_counterexample:
  "updateChart \<lparr>currentData = Some [],
         currentMappings = [(''x'', Some \<lparr>fm_column = ''name'', fm_type = Nominal\<rparr>),
                            (''y'', Some \<lparr>fm_column = ''value'', fm_type = Quantitative\<rparr>),
                            (''color'', None), (''size'', None)],
         currentChartType = ''bar'',
         chartConfig = \<lparr>cfg_title = Some [], cfg_width = Some (Finite 600), cfg_height = Some (Finite 400)\<rparr>\<rparr>
     = Render (buildSpec [] ''bar''
           [(''x'', Some \<lparr>fm_column = ''name'', fm_type = Nominal\<rparr>),
            (''y'', Some \<lparr>fm_column = ''value'', fm_type = Quantitative\<rparr>),
            (''color'', None), (''size'', None)]
           \<lparr>cfg_title = Some [], cfg_width = Some (Finite 600), cfg_height = Some (Finite 400)\<rparr>)
   \<and> buildSpecOn [[(''name'', CStr ''A''), (''value'', CNum (Finite 30))]] ''bar''
        [(''x'', Some \<lparr>me_column = None, me_type = Nominal\<rparr>),
         (''y'', Some \<lparr>me_column = None, me_type = Quantitative\<rparr>),
         (''color'', None), (''detail'', None), (''opacity'', None)]
        \<lparr>cfg_title = Some ''Generated Chart'', cfg_width = Some (Finite 500),
         cfg_height = Some (Finite 300)\<rparr> = Inl TypeError"
  by (simp add: updateChart_def mapped_def buildSpecOn_def readChannel_def entryOf_def)

end
